theory Spec2Isabelle
  imports Main
begin

section \<open>JavaScript strings\<close>

text \<open>
  A JavaScript string is a sequence of UTF-16 code units; \<open>length\<close>, \<open>slice\<close> and
  \<open>substring\<close> count code units. A string is modelled as the list of its code units,
  each a natural number. \<open>lit\<close> turns an ASCII literal of the source into that list.
\<close>

type_synonym jsstring = "nat list"

definition lit :: "string \<Rightarrow> jsstring" where
  "lit s = map of_char s"

text \<open>
  The code units that \<open>String.prototype.trim\<close> strips and the regular expression
  class \<open>\s\<close> matches: tab, line feed, vertical tab, form feed, carriage return, space,
  no-break space, the Unicode space separators, the line and paragraph separators and
  the byte order mark.
\<close>

definition isWhiteSpace :: "nat \<Rightarrow> bool" where
  "isWhiteSpace c \<longleftrightarrow>
     c \<in> set [9, 10, 11, 12, 13, 32, 160, 5760, 8192, 8193, 8194, 8195, 8196, 8197, 8198,
              8199, 8200, 8201, 8202, 8232, 8233, 8239, 8287, 12288, 65279]"

definition trim :: "jsstring \<Rightarrow> jsstring" where
  "trim s = rev (dropWhile isWhiteSpace (rev (dropWhile isWhiteSpace s)))"

text \<open>A string is truthy when it is not empty.\<close>

definition truthy :: "jsstring \<Rightarrow> bool" where
  "truthy s \<longleftrightarrow> s \<noteq> []"

text \<open>\<open>slice(0, n)\<close> on a string, for a non-negative \<open>n\<close>.\<close>

definition slice0 :: "nat \<Rightarrow> jsstring \<Rightarrow> jsstring" where
  "slice0 n s = take n s"

text \<open>
  \<open>startsWith\<close>: whether \<open>s\<close> begins with \<open>p\<close>.
\<close>

definition startsWith :: "jsstring \<Rightarrow> jsstring \<Rightarrow> bool" where
  "startsWith p s \<longleftrightarrow> take (length p) s = p"

text \<open>\<open>includes\<close> of a string: whether \<open>k\<close> occurs in \<open>s\<close>.\<close>

fun includesStr :: "jsstring \<Rightarrow> jsstring \<Rightarrow> bool" where
  "includesStr [] k = (k = [])"
| "includesStr (c # r) k = (startsWith k (c # r) \<or> includesStr r k)"

text \<open>\<open>repeat\<close> and \<open>join\<close>, as on JavaScript strings and arrays.\<close>

definition repeat :: "nat \<Rightarrow> jsstring \<Rightarrow> jsstring" where
  "repeat n s = concat (replicate n s)"

fun join :: "jsstring \<Rightarrow> jsstring list \<Rightarrow> jsstring" where
  "join sep [] = []"
| "join sep [x] = x"
| "join sep (x # y # ys) = x @ sep @ join sep (y # ys)"

text \<open>
  The class \<open>\d\<close> of a regular expression without the Unicode flag: the digits 0 to 9.
\<close>

definition isDigit :: "nat \<Rightarrow> bool" where
  "isDigit c \<longleftrightarrow> 48 \<le> c \<and> c \<le> 57"

text \<open>
  \<open>toLowerCase\<close>, one code unit at a time. The capital letters A to Z, the Kelvin sign
  and the capital I with dot above are the only code units whose lower case contains an
  ASCII letter, and they are mapped as JavaScript maps them. Any other code unit is kept;
  JavaScript may map it to other code units outside ASCII, which a search for an ASCII
  keyword cannot tell from the code unit itself.
\<close>

definition lowerUnit :: "nat \<Rightarrow> jsstring" where
  "lowerUnit c =
     (if 65 \<le> c \<and> c \<le> 90 then [c + 32]
      else if c = 8490 then [107]
      else if c = 304 then [105, 775]
      else [c])"

definition toLowerCase :: "jsstring \<Rightarrow> jsstring" where
  "toLowerCase s = concat (map lowerUnit s)"

subsection \<open>Numbers in template strings\<close>

text \<open>The decimal digits of a number, as \<open>String(n)\<close> gives them for an integer.\<close>

fun showNat :: "nat \<Rightarrow> jsstring" where
  "showNat n = (if n < 10 then [48 + n] else showNat (n div 10) @ [48 + n mod 10])"

declare showNat.simps [simp del]

text \<open>
  An integer, with its sign.
\<close>

definition showInt :: "int \<Rightarrow> jsstring" where
  "showInt i = (if i < 0 then 45 # showNat (nat (- i)) else showNat (nat i))"

section \<open>The multi-document upload component\<close>

text \<open>The \<open>File\<close> of the browser: its name and its bytes.\<close>

record File =
  name :: jsstring
  bytes :: "nat list"

text \<open>
  \<open>DocumentFile\<close>. The status is typed as one of five literals in the source, but it
  is assigned from the server's JSON through an unchecked cast, so it is a string here.
  The progress is a percentage, taken as an integer.
\<close>

record DocumentFile =
  doc_id :: jsstring
  doc_file :: File
  status :: jsstring
  analysis :: "jsstring option"
  error :: "jsstring option"
  progress :: int

text \<open>An entry of \<open>BatchResult.results\<close>.\<close>

record ResultEntry =
  r_filename :: jsstring
  r_status :: jsstring
  r_analysis :: "jsstring option"
  r_error :: "jsstring option"

text \<open>
  \<open>BatchResult\<close>, the body of a successful response to a submission or to a results
  query. The counts are integers; a field that may be missing from the JSON is an option.
\<close>

record BatchResult =
  batch_id :: "jsstring option"
  total_documents :: int
  completed :: int
  failed :: int
  analysis_type :: jsstring
  unified_analysis :: "jsstring option"
  source_documents :: "jsstring list option"
  results :: "ResultEntry list option"

text \<open>The predefined prompts, with the ids and templates of the source.\<close>

record PredefinedPrompt =
  p_id :: jsstring
  p_name :: jsstring
  description :: jsstring
  template :: jsstring
  version :: jsstring

text \<open>
  The state of the component: the values held by \<open>useState\<close>, and the timers of the
  browser that \<open>handleSubmit\<close> starts. An interval is kept with its handle and the batch
  it polls for; a timeout with the handle of the interval it clears and the value of
  \<open>isProcessing\<close> that its closure captured.
\<close>

record state =
  documents :: "DocumentFile list"
  selectedPromptId :: jsstring
  customPrompt :: jsstring
  userContext :: jsstring
  isProcessing :: bool
  batchResult :: "BatchResult option"
  currentBatchId :: "jsstring option"
  intervals :: "(nat \<times> jsstring) list"
  timeouts :: "(nat \<times> bool) list"
  nextHandle :: nat

definition initialState :: state where
  "initialState = \<lparr> documents = [], selectedPromptId = lit ''red-flags-review'',
     customPrompt = [], userContext = [], isProcessing = False, batchResult = None,
     currentBatchId = None, intervals = [], timeouts = [], nextHandle = 0 \<rparr>"

definition predefinedPrompts :: "PredefinedPrompt list" where
  "predefinedPrompts = [
    \<lparr> p_id = lit ''red-flags-review'',
      p_name = lit ''Red Flags Review'',
      description = lit ''Automated contract risk assessment and compliance issue identification with evidence-based findings'',
      template = lit ''Please perform a comprehensive red flags review on this contract, identifying potential legal risks, compliance issues, and problematic clauses. Focus on liability limitations, termination conditions, payment terms, intellectual property clauses, indemnification provisions, and any unusual or potentially problematic terms. Provide specific evidence from the contract text for each identified risk.'',
      version = lit ''1.0'' \<rparr>,
    \<lparr> p_id = lit ''review-against-base'',
      p_name = lit ''Review Against Base & Summarize Changes'',
      description = lit ''Compare contract versions and highlight modifications with impact analysis'',
      template = lit ''Compare this contract against standard templates or previous versions to identify all changes and modifications. Highlight additions, deletions, and alterations. Assess the business impact and legal risk of each change. Summarize departures from standard terms and flag any modifications that require special attention during review.'',
      version = lit ''1.0'' \<rparr>,
    \<lparr> p_id = lit ''negotiation-support'',
      p_name = lit ''Negotiation Support'',
      description = lit ''Help draft responses, track departures from standard terms, and analyze negotiation positions'',
      template = lit ''Analyze this contract for negotiation support. Identify unfavorable terms, track departures from standard positions, and suggest negotiation strategies. Highlight key terms that should be challenged, modified, or accepted. Provide recommendations for response drafting and position strength assessment on critical clauses.'',
      version = lit ''1.0'' \<rparr>,
    \<lparr> p_id = lit ''custom'',
      p_name = lit ''Custom Analysis'',
      description = lit ''Create your own analysis instructions for specialized use cases'',
      template = [],
      version = lit ''1.0'' \<rparr>
  ]"

text \<open>
  \<open>getFinalPrompt\<close>: the custom prompt or the selected template (the empty string when
  no prompt has the selected id), followed by the business context when that is not
  blank.
\<close>

definition basePrompt :: "state \<Rightarrow> jsstring" where
  "basePrompt s =
     (if selectedPromptId s = lit ''custom'' then customPrompt s
      else (case find (\<lambda>p. p_id p = selectedPromptId s) predefinedPrompts of
              None \<Rightarrow> []
            | Some p \<Rightarrow> if truthy (template p) then template p else []))"

definition getFinalPrompt :: "state \<Rightarrow> jsstring" where
  "getFinalPrompt s =
     (if truthy (trim (userContext s))
      then basePrompt s @ lit [CHR 0x0A, CHR 0x0A] @ lit ''Additional Context: '' @ userContext s
      else basePrompt s)"

subsection \<open>Editing the prompt\<close>

text \<open>
  The \<open>onChange\<close> handler of the business-context textarea, the only place that calls
  \<open>setUserContext\<close>: \<open>setUserContext(e.target.value.slice(0, 500))\<close>.
\<close>

definition onChangeUserContext :: "jsstring \<Rightarrow> state \<Rightarrow> state" where
  "onChangeUserContext v s = s\<lparr>userContext := slice0 500 v\<rparr>"

text \<open>The other two inputs of the prompt.\<close>

definition onChangeCustomPrompt :: "jsstring \<Rightarrow> state \<Rightarrow> state" where
  "onChangeCustomPrompt v s = s\<lparr>customPrompt := v\<rparr>"

definition onSelectPrompt :: "jsstring \<Rightarrow> state \<Rightarrow> state" where
  "onSelectPrompt i s = s\<lparr>selectedPromptId := i\<rparr>"

text \<open>A run of edits of the three inputs, applied from left to right.\<close>

datatype edit = EditContext jsstring | EditCustom jsstring | SelectPrompt jsstring

fun applyEdit :: "edit \<Rightarrow> state \<Rightarrow> state" where
  "applyEdit (EditContext v) s = onChangeUserContext v s"
| "applyEdit (EditCustom v) s = onChangeCustomPrompt v s"
| "applyEdit (SelectPrompt i) s = onSelectPrompt i s"

fun applyEdits :: "edit list \<Rightarrow> state \<Rightarrow> state" where
  "applyEdits [] s = s"
| "applyEdits (e # es) s = applyEdits es (applyEdit e s)"

subsection \<open>The document list\<close>

text \<open>
  \<open>onDrop\<close> appends one pending document for each accepted file; \<open>now\<close> is the value
  of \<open>Date.now()\<close>. The dropzone is configured with \<open>maxFiles: 10\<close>, which bounds the
  files of one drop: it hands \<open>onDrop\<close> at most 10 accepted files at a time.
\<close>

definition maxFiles :: nat where
  "maxFiles = 10"

definition newDocument :: "nat \<Rightarrow> nat \<times> File \<Rightarrow> DocumentFile" where
  "newDocument now p =
     \<lparr> doc_id = lit ''doc_'' @ showNat now @ lit ''_'' @ showNat (fst p),
       doc_file = snd p, status = lit ''pending'', analysis = None, error = None,
       progress = 0 \<rparr>"

definition onDrop :: "nat \<Rightarrow> File list \<Rightarrow> state \<Rightarrow> state" where
  "onDrop now acceptedFiles s =
     s\<lparr>documents := documents s @ map (newDocument now) (enumerate 0 acceptedFiles)\<rparr>"

text \<open>
  \<open>removeDocument\<close> and \<open>clearAll\<close>.
\<close>

definition removeDocument :: "jsstring \<Rightarrow> state \<Rightarrow> state" where
  "removeDocument i s = s\<lparr>documents := filter (\<lambda>doc. doc_id doc \<noteq> i) (documents s)\<rparr>"

definition clearAll :: "state \<Rightarrow> state" where
  "clearAll s = s\<lparr>documents := [], batchResult := None, currentBatchId := None\<rparr>"

subsection \<open>Requests and responses\<close>

text \<open>
  The three requests the component sends: the batch submission with its files and its
  prompt, the status query and the results query of a batch.
\<close>

datatype request =
  AnalyzeMultiple "File list" jsstring
| BatchStatusReq jsstring
| BatchResultsReq jsstring

text \<open>
  What awaiting a \<open>fetch\<close> and its JSON body gives. \<open>Rejected m\<close>: the fetch or the
  reading of the body threw; \<open>m\<close> is the message when an \<open>Error\<close> was thrown.
  \<open>NotOk e t\<close>: \<open>response.ok\<close> is false; \<open>e\<close> is the \<open>error\<close> field of the body and
  \<open>t\<close> the status text. \<open>Ok v\<close>: \<open>response.ok\<close> is true and the body is \<open>v\<close>.
\<close>

datatype 'a response = Rejected "jsstring option" | NotOk "jsstring option" jsstring | Ok 'a

text \<open>
  An entry of \<open>status.documents\<close> in the body of a status response. The list itself may
  be missing from the body (the source reads it with \<open>?.\<close>), and so may a progress.
\<close>

record StatusDoc =
  d_filename :: jsstring
  d_status :: jsstring
  d_progress :: "int option"

type_synonym snapshot = "StatusDoc list option"

text \<open>
  The two statuses that the component treats as final.
\<close>

definition terminal :: "jsstring \<Rightarrow> bool" where
  "terminal st \<longleftrightarrow> st = lit ''completed'' \<or> st = lit ''failed''"

subsection \<open>Status polling\<close>

text \<open>
  The update of one document by a snapshot: the first entry with the document's file
  name gives the new status, and the new progress unless that is missing or zero
  (\<open>statusDoc.progress || doc.progress\<close>).
\<close>

definition statusDocOf :: "snapshot \<Rightarrow> DocumentFile \<Rightarrow> StatusDoc option" where
  "statusDocOf snap doc =
     (case snap of
        None \<Rightarrow> None
      | Some ds \<Rightarrow> find (\<lambda>d. d_filename d = name (doc_file doc)) ds)"

definition applyStatus :: "snapshot \<Rightarrow> DocumentFile \<Rightarrow> DocumentFile" where
  "applyStatus snap doc =
     (case statusDocOf snap doc of
        Some statusDoc \<Rightarrow>
          doc\<lparr>status := d_status statusDoc,
              progress := (case d_progress statusDoc of
                             None \<Rightarrow> progress doc
                           | Some p \<Rightarrow> if p = 0 then progress doc else p)\<rparr>
      | None \<Rightarrow> doc)"

text \<open>
  \<open>status.documents?.every(...)\<close>: undefined when the list is missing, otherwise
  whether every entry is \<open>completed\<close> or \<open>failed\<close>.
\<close>

definition isComplete :: "snapshot \<Rightarrow> bool option" where
  "isComplete snap = map_option (list_all (\<lambda>d. terminal (d_status d))) snap"

text \<open>
  \<open>pollBatchStatus\<close>. The arguments are the batch, what the status request gives and
  what the results request gives if it is sent. The result is the returned boolean, the
  requests sent in order, and the new state.
\<close>

definition pollBatchStatus ::
  "jsstring \<Rightarrow> snapshot response \<Rightarrow> BatchResult response \<Rightarrow> state
     \<Rightarrow> bool \<times> request list \<times> state" where
  "pollBatchStatus batchId statusResponse resultsResponse s =
     (case statusResponse of
        Rejected m \<Rightarrow> (False, [BatchStatusReq batchId], s)
      | NotOk e t \<Rightarrow> (False, [BatchStatusReq batchId], s)
      | Ok snap \<Rightarrow>
          (let s1 = s\<lparr>documents := map (applyStatus snap) (documents s)\<rparr> in
           if isComplete snap = Some True then
             (case resultsResponse of
                Ok res \<Rightarrow>
                  (False, [BatchStatusReq batchId, BatchResultsReq batchId],
                   s1\<lparr>batchResult := Some res, isProcessing := False, currentBatchId := None\<rparr>)
              | NotOk e t \<Rightarrow>
                  (isComplete snap \<noteq> Some True,
                   [BatchStatusReq batchId, BatchResultsReq batchId], s1)
              | Rejected m \<Rightarrow>
                  (False, [BatchStatusReq batchId, BatchResultsReq batchId], s1))
           else (isComplete snap \<noteq> Some True, [BatchStatusReq batchId], s1)))"

subsection \<open>Timers\<close>

text \<open>
  \<open>clearInterval\<close>: the interval of handle \<open>h\<close> no longer fires.
\<close>

definition clearInterval :: "nat \<Rightarrow> state \<Rightarrow> state" where
  "clearInterval h s = s\<lparr>intervals := filter (\<lambda>p. fst p \<noteq> h) (intervals s)\<rparr>"

text \<open>
  The callback of the 300000 ms timeout that \<open>handleSubmit\<close> sets beside the interval
  \<open>h\<close>: it clears the interval, and sets \<open>isProcessing\<close> to false if the
  \<open>isProcessing\<close> of its closure is true. It does not touch the documents.
\<close>

definition pollingBudget :: nat where
  "pollingBudget = 300000"

definition timeoutFires :: "nat \<Rightarrow> state \<Rightarrow> state" where
  "timeoutFires h s =
     (case map_of (timeouts s) h of
        None \<Rightarrow> s
      | Some captured \<Rightarrow>
          (let s1 = clearInterval h (s\<lparr>timeouts := filter (\<lambda>p. fst p \<noteq> h) (timeouts s)\<rparr>)
           in if captured then s1\<lparr>isProcessing := False\<rparr> else s1))"

subsection \<open>Polls in flight\<close>

text \<open>
  The callback of the interval is \<open>async\<close>, and \<open>setInterval\<close> does not wait for it: a
  firing sends the status request and returns, and the rest of \<open>pollBatchStatus\<close> runs
  when the response settles, which may be after later firings. A poll in flight is kept
  with the interval that fired it, its batch, and the response it is waiting for.
\<close>

datatype phase = AwaitingStatus | AwaitingResults

record poll =
  p_interval :: nat
  p_batch :: jsstring
  p_phase :: phase

text \<open>The component together with its polls in flight, each under a number of its own.\<close>

record world =
  component :: state
  inFlight :: "(nat \<times> poll) list"
  nextPoll :: nat

text \<open>
  One firing of the interval \<open>h\<close>: a cleared interval does not fire; a live one starts a
  poll of its batch, which sends the status request.
\<close>

definition intervalFires :: "nat \<Rightarrow> world \<Rightarrow> request list \<times> world" where
  "intervalFires h w =
     (case map_of (intervals (component w)) h of
        None \<Rightarrow> ([], w)
      | Some batchId \<Rightarrow>
          ([BatchStatusReq batchId],
           w\<lparr>inFlight := inFlight w @
                  [(nextPoll w, \<lparr>p_interval = h, p_batch = batchId, p_phase = AwaitingStatus\<rparr>)],
             nextPoll := nextPoll w + 1\<rparr>))"

text \<open>
  The end of the callback, once \<open>pollBatchStatus\<close> has returned: the interval is
  cleared unless the poll said to continue. The callback's own \<open>catch\<close> is never
  entered, since \<open>pollBatchStatus\<close> catches what its body throws.
\<close>

definition pollReturns :: "bool \<Rightarrow> nat \<Rightarrow> state \<Rightarrow> state" where
  "pollReturns shouldContinue h s = (if shouldContinue then s else clearInterval h s)"

text \<open>
  \<open>endPoll\<close>: the poll \<open>p\<close> is over.
\<close>

definition endPoll :: "nat \<Rightarrow> world \<Rightarrow> world" where
  "endPoll p w = w\<lparr>inFlight := filter (\<lambda>q. fst q \<noteq> p) (inFlight w)\<rparr>"

text \<open>
  The status request of poll \<open>p\<close> settles. On a failure the poll returns false. On a
  snapshot the documents are updated; when the snapshot is complete the results request
  is sent and the poll waits for it, otherwise the poll returns \<open>!isComplete\<close>.
\<close>

definition statusSettles :: "nat \<Rightarrow> snapshot response \<Rightarrow> world \<Rightarrow> request list \<times> world" where
  "statusSettles p statusResponse w =
     (case map_of (inFlight w) p of
        None \<Rightarrow> ([], w)
      | Some pl \<Rightarrow>
          if p_phase pl = AwaitingStatus then
            (case statusResponse of
               Rejected m \<Rightarrow>
                 ([], endPoll p (w\<lparr>component := pollReturns False (p_interval pl) (component w)\<rparr>))
             | NotOk e t \<Rightarrow>
                 ([], endPoll p (w\<lparr>component := pollReturns False (p_interval pl) (component w)\<rparr>))
             | Ok snap \<Rightarrow>
                 (let s1 = (component w)\<lparr>documents :=
                              map (applyStatus snap) (documents (component w))\<rparr> in
                  if isComplete snap = Some True then
                    ([BatchResultsReq (p_batch pl)],
                     w\<lparr>component := s1,
                       inFlight := map (\<lambda>q. if fst q = p then (p, pl\<lparr>p_phase := AwaitingResults\<rparr>)
                                             else q) (inFlight w)\<rparr>)
                  else
                    ([], endPoll p
                       (w\<lparr>component :=
                            pollReturns (isComplete snap \<noteq> Some True) (p_interval pl) s1\<rparr>))))
          else ([], w))"

text \<open>
  The results request of poll \<open>p\<close> settles. With the results the batch result is
  stored and processing ends; in every case the poll returns false.
\<close>

definition resultsSettle :: "nat \<Rightarrow> BatchResult response \<Rightarrow> world \<Rightarrow> request list \<times> world" where
  "resultsSettle p resultsResponse w =
     (case map_of (inFlight w) p of
        None \<Rightarrow> ([], w)
      | Some pl \<Rightarrow>
          if p_phase pl = AwaitingResults then
            (case resultsResponse of
               Ok res \<Rightarrow>
                 ([], endPoll p
                    (w\<lparr>component :=
                         pollReturns False (p_interval pl)
                           ((component w)\<lparr>batchResult := Some res, isProcessing := False,
                                           currentBatchId := None\<rparr>)\<rparr>))
             | NotOk e t \<Rightarrow>
                 ([], endPoll p (w\<lparr>component := pollReturns False (p_interval pl) (component w)\<rparr>))
             | Rejected m \<Rightarrow>
                 ([], endPoll p (w\<lparr>component := pollReturns False (p_interval pl) (component w)\<rparr>)))
          else ([], w))"

text \<open>
  What happens after a submission: an interval fires, a request of a poll in flight
  settles, or a timeout fires; and a run of such events in the order in which they
  happen, with the requests sent along the way.
\<close>

datatype event =
  Fire nat
| StatusSettled nat "snapshot response"
| ResultsSettled nat "BatchResult response"
| Timeout nat

fun eventStep :: "event \<Rightarrow> world \<Rightarrow> request list \<times> world" where
  "eventStep (Fire h) w = intervalFires h w"
| "eventStep (StatusSettled p r) w = statusSettles p r w"
| "eventStep (ResultsSettled p r) w = resultsSettle p r w"
| "eventStep (Timeout h) w = ([], w\<lparr>component := timeoutFires h (component w)\<rparr>)"

fun run :: "event list \<Rightarrow> world \<Rightarrow> request list \<times> world" where
  "run [] w = ([], w)"
| "run (e # es) w =
     (case eventStep e w of
        (reqs, w') \<Rightarrow> (case run es w' of (reqs', w'') \<Rightarrow> (reqs @ reqs', w'')))"

text \<open>
  The component in state \<open>s\<close>, with no poll in flight.
\<close>

definition idle :: "state \<Rightarrow> world" where
  "idle s = \<lparr> component = s, inFlight = [], nextPoll = 0 \<rparr>"

subsection \<open>Submission\<close>

text \<open>The \<open>catch\<close> of \<open>handleSubmit\<close>: every document fails with the message.\<close>

definition failAll :: "jsstring \<Rightarrow> state \<Rightarrow> state" where
  "failAll msg s =
     s\<lparr>documents := map (\<lambda>doc. doc\<lparr>status := lit ''failed'', error := Some msg, progress := 100\<rparr>)
                        (documents s),
       isProcessing := False\<rparr>"

text \<open>The message of the error thrown on a response that is not ok.\<close>

definition notOkMessage :: "jsstring option \<Rightarrow> jsstring \<Rightarrow> jsstring" where
  "notOkMessage e statusText =
     (case e of
        Some m \<Rightarrow> if truthy m then m else lit ''Failed to analyze documents: '' @ statusText
      | None \<Rightarrow> lit ''Failed to analyze documents: '' @ statusText)"

text \<open>The fallback when the response carries no batch id: the result is final.\<close>

definition individualResult :: "ResultEntry list \<Rightarrow> DocumentFile \<Rightarrow> DocumentFile" where
  "individualResult rs doc =
     (case find (\<lambda>r. r_filename r = name (doc_file doc)) rs of
        Some a \<Rightarrow>
          doc\<lparr>status := (if r_status a = lit ''completed'' then lit ''completed'' else lit ''failed''),
              analysis := r_analysis a, error := r_error a, progress := 100\<rparr>
      | None \<Rightarrow> doc\<lparr>status := lit ''failed'', error := Some (lit ''No result found''),
                    progress := 100\<rparr>)"

definition fallbackResult :: "BatchResult \<Rightarrow> state \<Rightarrow> state" where
  "fallbackResult result s =
     (let s1 = s\<lparr>batchResult := Some result\<rparr>;
          s2 = (case results result of
                  Some rs \<Rightarrow>
                    if analysis_type result = lit ''individual''
                    then s1\<lparr>documents := map (individualResult rs) (documents s1)\<rparr>
                    else s1\<lparr>documents :=
                           map (\<lambda>doc. doc\<lparr>status := lit ''completed'',
                                          analysis := Some (lit ''See unified analysis below''),
                                          progress := 100\<rparr>) (documents s1)\<rparr>
                | None \<Rightarrow>
                    s1\<lparr>documents :=
                        map (\<lambda>doc. doc\<lparr>status := lit ''completed'',
                                       analysis := Some (lit ''See unified analysis below''),
                                       progress := 100\<rparr>) (documents s1)\<rparr>)
      in s2\<lparr>isProcessing := False\<rparr>)"

text \<open>
  With a batch id: the interval that polls the batch every second is started, and the
  timeout that stops it. The timeout's closure reads the \<open>isProcessing\<close> of the render
  in which \<open>handleSubmit\<close> was created, that is its value when \<open>handleSubmit\<close> was
  called.
\<close>

definition startPolling :: "jsstring \<Rightarrow> bool \<Rightarrow> state \<Rightarrow> state" where
  "startPolling batchId captured s =
     s\<lparr>currentBatchId := Some batchId,
       intervals := intervals s @ [(nextHandle s, batchId)],
       timeouts := timeouts s @ [(nextHandle s, captured)],
       nextHandle := nextHandle s + 1\<rparr>"

text \<open>
  \<open>handleSubmit\<close>, given what the submission request gives. It returns at once when
  there is no document or the final prompt is blank; these are its only checks.
  Otherwise every document is set to \<open>uploading\<close> and then to \<open>analyzing\<close>, the files of
  all documents are sent with the prompt, and the response decides the rest.
\<close>

definition handleSubmit :: "BatchResult response \<Rightarrow> state \<Rightarrow> request list \<times> state" where
  "handleSubmit response s =
     (let finalPrompt = getFinalPrompt s in
      if length (documents s) = 0 \<or> \<not> truthy (trim finalPrompt) then ([], s)
      else
        (let s1 = s\<lparr>isProcessing := True, batchResult := None\<rparr>;
             s2 = s1\<lparr>documents :=
                      map (\<lambda>doc. doc\<lparr>status := lit ''uploading'', progress := 10\<rparr>) (documents s1)\<rparr>;
             formData = AnalyzeMultiple (map doc_file (documents s)) finalPrompt;
             s3 = s2\<lparr>documents :=
                      map (\<lambda>doc. doc\<lparr>status := lit ''analyzing'', progress := 30\<rparr>) (documents s2)\<rparr>
         in case response of
              Rejected m \<Rightarrow>
                ([formData],
                 failAll (case m of Some msg \<Rightarrow> msg | None \<Rightarrow> lit ''Unknown error'') s3)
            | NotOk e statusText \<Rightarrow> ([formData], failAll (notOkMessage e statusText) s3)
            | Ok result \<Rightarrow>
                (case batch_id result of
                   Some b \<Rightarrow>
                     if truthy b then ([formData], startPolling b (isProcessing s) s3)
                     else ([formData], fallbackResult result s3)
                 | None \<Rightarrow> ([formData], fallbackResult result s3))))"

subsection \<open>The downloaded report\<close>

text \<open>
  \<open>batchResult.unified_analysis || batchResult.results?.[0]?.analysis || '...'\<close>: the
  first of the three that is defined and not empty.
\<close>

definition analysisContent :: "BatchResult \<Rightarrow> jsstring" where
  "analysisContent br =
     (let firstAnalysis =
            (case results br of
               Some (r # rs) \<Rightarrow>
                 (case r_analysis r of
                    Some a \<Rightarrow> if truthy a then a else lit ''Analysis completed successfully.''
                  | None \<Rightarrow> lit ''Analysis completed successfully.'')
             | _ \<Rightarrow> lit ''Analysis completed successfully.'')
      in case unified_analysis br of
           Some u \<Rightarrow> if truthy u then u else firstAnalysis
         | None \<Rightarrow> firstAnalysis)"

definition reportTitle :: "BatchResult \<Rightarrow> jsstring" where
  "reportTitle br =
     (if total_documents br = 1 then lit ''LEGAL DOCUMENT ANALYSIS REPORT''
      else lit ''MULTI-DOCUMENT LEGAL ANALYSIS REPORT'')"

text \<open>
  The template string of the report. \<open>date\<close> is what
  \<open>new Date().toLocaleDateString()\<close> gives when the report is made.
\<close>

definition reportContent :: "jsstring \<Rightarrow> BatchResult \<Rightarrow> jsstring" where
  "reportContent date br =
     reportTitle br @ [10]
     @ repeat (length (reportTitle br)) (lit ''='') @ [10]
     @ [10]
     @ lit ''Analysis Date: '' @ date @ [10]
     @ (if total_documents br > 1
        then lit ''Total Documents Analyzed: '' @ showInt (total_documents br) else []) @ [10]
     @ (if completed br > 0
        then lit ''Successfully Processed: '' @ showInt (completed br) else []) @ [10]
     @ (if failed br > 0 then lit ''Failed: '' @ showInt (failed br) else []) @ [10]
     @ (case source_documents br of
          Some ds \<Rightarrow>
            if length ds > 1 then [10] @ lit ''Source Documents: '' @ join (lit '', '') ds else []
        | None \<Rightarrow> []) @ [10]
     @ [10]
     @ analysisContent br @ [10]
     @ [10]
     @ repeat 40 (lit ''='') @ [10]
     @ lit ''Generated by TayLaw Legal AI Assistant'' @ [10]"

text \<open>
  The clock as \<open>downloadBatchReport\<close> reads it: the locale date string and the ISO
  string of \<open>new Date()\<close>. The name of the file takes the part of the ISO string before
  the first \<open>T\<close>.
\<close>

record clock =
  localeDateString :: jsstring
  isoString :: jsstring

record download =
  fileName :: jsstring
  content :: jsstring

definition reportFileName :: "jsstring \<Rightarrow> BatchResult \<Rightarrow> jsstring" where
  "reportFileName isoDate br =
     (if total_documents br = 1
      then lit ''legal_analysis_'' @ takeWhile (\<lambda>c. c \<noteq> 84) isoDate @ lit ''.txt''
      else lit ''multi_document_analysis_'' @ takeWhile (\<lambda>c. c \<noteq> 84) isoDate @ lit ''.txt'')"

text \<open>\<open>downloadBatchReport\<close>: nothing without a batch result, otherwise the file.\<close>

definition downloadBatchReport :: "clock \<Rightarrow> state \<Rightarrow> download option" where
  "downloadBatchReport now s =
     (case batchResult s of
        None \<Rightarrow> None
      | Some br \<Rightarrow>
          Some \<lparr> fileName = reportFileName (isoString now) br,
                 content = reportContent (localeDateString now) br \<rparr>)"

section \<open>The agent monitor\<close>

record ParallelProcessingStatus =
  active :: bool
  total_chunks :: int
  completed_chunks :: int
  completion_percentage :: int

text \<open>
  The two pieces of state that the progress of a step is computed from: the state of
  each agent by name, and the counters of the parallel chunk analysis.
\<close>

record monitor =
  agentStates :: "jsstring \<rightharpoonup> jsstring"
  parallelStatus :: ParallelProcessingStatus

definition initialMonitor :: monitor where
  "initialMonitor = \<lparr> agentStates = Map.empty,
     parallelStatus = \<lparr> active = False, total_chunks = 0, completed_chunks = 0,
       completion_percentage = 0 \<rparr> \<rparr>"

text \<open>
  \<open>parallelComplete\<close>: every chunk is accounted for, and there is at least one chunk.
\<close>

definition parallelComplete :: "monitor \<Rightarrow> bool" where
  "parallelComplete m \<longleftrightarrow>
     completed_chunks (parallelStatus m) \<ge> total_chunks (parallelStatus m)
     \<and> total_chunks (parallelStatus m) > 0"

text \<open>\<open>getStepProgress\<close>, the percentage shown for a step of the workflow.\<close>

definition getStepProgress :: "monitor \<Rightarrow> jsstring \<Rightarrow> int" where
  "getStepProgress m step =
     (let hasDocumentParser = (agentStates m (lit ''Document Parser'') = Some (lit ''completed''));
          hasChunking = (agentStates m (lit ''Document Chunking Agent'') = Some (lit ''completed''));
          hasCrossRef = (agentStates m (lit ''Cross-Reference Agent'') = Some (lit ''completed''));
          hasCombination = (agentStates m (lit ''Results Combination Agent'') = Some (lit ''completed''));
          hasReport = (agentStates m (lit ''Report Generator'') = Some (lit ''completed''))
      in
      if step = lit ''parsing'' then
        (if hasDocumentParser then 100 else (if dom (agentStates m) \<noteq> {} then 50 else 0))
      else if step = lit ''chunking'' then
        (if \<not> hasDocumentParser then 0
         else if hasChunking then 100
         else (if agentStates m (lit ''Document Chunking Agent'') = Some (lit ''processing'')
               then 50 else 10))
      else if step = lit ''analysis'' then
        (if \<not> hasChunking then 0
         else if total_chunks (parallelStatus m) = 0 then 10
         else if parallelComplete m then 100
         else max 10 (completion_percentage (parallelStatus m)))
      else if step = lit ''cross_ref'' then
        (if \<not> parallelComplete m then 0
         else if hasCrossRef then 100
         else (if agentStates m (lit ''Cross-Reference Agent'') = Some (lit ''processing'')
               then 50 else 10))
      else if step = lit ''combination'' then
        (if \<not> hasCrossRef then 0
         else if hasCombination then 100
         else (if agentStates m (lit ''Results Combination Agent'') = Some (lit ''processing'')
               then 50 else 10))
      else if step = lit ''report'' then
        (if \<not> hasCombination then 0
         else if hasReport then 100
         else (if agentStates m (lit ''Report Generator'') = Some (lit ''processing'')
               then 50 else 10))
      else 0)"

section \<open>The issues list\<close>

text \<open>The severity of an issue: \<open>'high' | 'medium' | 'low'\<close>.\<close>

datatype severity = High | Medium | Low

text \<open>
  An issue parsed from the analysis text. Its clause, document name and recommendation,
  which the source extracts from the section with three further regular expressions,
  are left out: they depend on the section alone and play no part in the order or the
  severity of the issues.
\<close>

record Issue =
  issue_id :: jsstring
  title :: jsstring
  issue_description :: jsstring
  issue_severity :: severity

text \<open>
  \<open>getSeverity\<close>: high when the lower-cased text contains a high keyword, else medium
  when it contains a medium keyword, else low.
\<close>

definition highKeywords :: "jsstring list" where
  "highKeywords = [lit ''critical'', lit ''urgent'', lit ''severe'', lit ''major'',
     lit ''high risk'', lit ''dangerous'', lit ''liability'', lit ''terminate'']"

definition mediumKeywords :: "jsstring list" where
  "mediumKeywords = [lit ''moderate'', lit ''medium'', lit ''concern'', lit ''issue'',
     lit ''problem'', lit ''review'']"

definition getSeverity :: "jsstring \<Rightarrow> severity" where
  "getSeverity content' =
     (let lowerContent = toLowerCase content' in
      if list_ex (\<lambda>keyword. includesStr lowerContent keyword) highKeywords then High
      else if list_ex (\<lambda>keyword. includesStr lowerContent keyword) mediumKeywords then Medium
      else Low)"

text \<open>
  The bullet of the two regular expressions, as the source file has it: the three code
  units U+201A, U+00C4, U+00A2.
\<close>

definition bullet :: jsstring where
  "bullet = [8218, 196, 162]"

text \<open>\<open>\d+\.\<close> at the start of a string: what follows it, if it matches.\<close>

definition afterNumber :: "jsstring \<Rightarrow> jsstring option" where
  "afterNumber s =
     (case s of
        [] \<Rightarrow> None
      | c # r \<Rightarrow>
          if isDigit c then
            (case dropWhile isDigit r of
               [] \<Rightarrow> None
             | d # r' \<Rightarrow> if d = 46 then Some r' else None)
          else None)"

text \<open>The lookahead \<open>(?=\d+\.|bullet|-)\<close> of the section separator.\<close>

definition sectionAhead :: "jsstring \<Rightarrow> bool" where
  "sectionAhead s \<longleftrightarrow>
     afterNumber s \<noteq> None \<or> startsWith bullet s \<or> startsWith (lit ''-'') s"

text \<open>
  \<open>text.split(/\n\s*(?=\d+\.|bullet|-)/)\<close>. The separator matches at a line feed when
  the text after the white space that follows it passes the lookahead; giving back some
  of that white space never helps the match, since the lookahead would then start at a
  white space code unit. \<open>acc\<close> is the piece read so far.
\<close>

function splitSections :: "jsstring \<Rightarrow> jsstring \<Rightarrow> jsstring list" where
  "splitSections acc [] = [acc]"
| "splitSections acc (c # r) =
     (if c = 10 \<and> sectionAhead (dropWhile isWhiteSpace r)
      then acc # splitSections [] (dropWhile isWhiteSpace r)
      else splitSections (acc @ [c]) r)"
  by pat_completeness auto
termination
proof (relation "measure (\<lambda>p. length (snd p))")
  fix acc :: jsstring and c :: nat and r :: jsstring
  have "length (dropWhile isWhiteSpace r) \<le> length r"
    by (rule length_dropWhile_le)
  then show "(([], dropWhile isWhiteSpace r), (acc, c # r)) \<in> measure (\<lambda>p. length (snd p))"
    by simp
qed simp_all

text \<open>\<open>section.split('\n')\<close>.\<close>

fun splitLines :: "jsstring \<Rightarrow> jsstring list" where
  "splitLines [] = [[]]"
| "splitLines (c # r) =
     (if c = 10 then [] # splitLines r
      else (case splitLines r of l # ls \<Rightarrow> (c # l) # ls | [] \<Rightarrow> [[c]]))"

text \<open>The three \<open>replace\<close> patterns that clean the title: \<open>/^\d+\.\s*/\<close>,
  \<open>/^[bullet\-]\s*/\<close> (a class: any one code unit of the bullet, or a hyphen) and
  \<open>/^\s+/\<close>.\<close>

definition removeNumber :: "jsstring \<Rightarrow> jsstring" where
  "removeNumber s =
     (case afterNumber s of Some r \<Rightarrow> dropWhile isWhiteSpace r | None \<Rightarrow> s)"

definition removeBullet :: "jsstring \<Rightarrow> jsstring" where
  "removeBullet s =
     (case s of
        [] \<Rightarrow> []
      | c # r \<Rightarrow> if c \<in> set bullet \<or> c = 45 then dropWhile isWhiteSpace r else s)"

definition cleanTitleOf :: "jsstring \<Rightarrow> jsstring \<Rightarrow> jsstring" where
  "cleanTitleOf firstLine restOfContent =
     (let cleanTitle =
            trim (dropWhile isWhiteSpace (removeBullet (removeNumber (removeNumber firstLine))))
      in if length cleanTitle < 3 \<and> truthy restOfContent
         then trim (take 50 restOfContent) else cleanTitle)"

text \<open>
  The body of the \<open>forEach\<close>: the issue of one section, or nothing when the section has
  no line that is not blank.
\<close>

definition issueOf :: "nat \<Rightarrow> jsstring \<Rightarrow> Issue option" where
  "issueOf index section' =
     (let lines = filter truthy (map trim (splitLines section')) in
      case lines of
        [] \<Rightarrow> None
      | firstLine # others \<Rightarrow>
          (let restOfContent = join (lit '' '') others;
               cleanTitle = cleanTitleOf firstLine restOfContent
           in Some \<lparr> issue_id = lit ''issue-'' @ showNat index,
                     title = take 100 cleanTitle
                             @ (if length cleanTitle > 100 then lit ''...'' else []),
                     issue_description = (if truthy restOfContent then restOfContent else firstLine),
                     issue_severity = getSeverity section' \<rparr>))"

text \<open>
  The \<open>sections\<close> of the source: the pieces of the split that are not blank.
\<close>

definition sectionsOf :: "jsstring \<Rightarrow> jsstring list" where
  "sectionsOf text' = filter (\<lambda>section'. truthy (trim section')) (splitSections [] text')"

text \<open>\<open>parseIssuesFromAnalysis\<close>.\<close>

definition parseIssuesFromAnalysis :: "jsstring \<Rightarrow> Issue list" where
  "parseIssuesFromAnalysis text' =
     (if text' = [] then []
      else List.map_filter (\<lambda>p. issueOf (fst p) (snd p)) (enumerate 0 (sectionsOf text')))"

section \<open>Predicates of the statements\<close>

text \<open>
  The entry of a status response that names a document, if the response is a snapshot
  with such an entry.
\<close>

definition reported :: "snapshot response \<Rightarrow> DocumentFile \<Rightarrow> StatusDoc option" where
  "reported statusResponse doc =
     (case statusResponse of Ok snap \<Rightarrow> statusDocOf snap doc | _ \<Rightarrow> None)"

text \<open>
  A status response that is a snapshot with a list of documents, all of them terminal.
\<close>

definition allTerminal :: "snapshot response \<Rightarrow> bool" where
  "allTerminal statusResponse =
     (case statusResponse of
        Ok (Some ds) \<Rightarrow> list_all (\<lambda>d. terminal (d_status d)) ds
      | _ \<Rightarrow> False)"

text \<open>
  A snapshot with a document that is not terminal. A snapshot without a list of
  documents has no such document.
\<close>

definition someNonTerminal :: "snapshot \<Rightarrow> bool" where
  "someNonTerminal snap =
     (case snap of None \<Rightarrow> False | Some ds \<Rightarrow> list_ex (\<lambda>d. \<not> terminal (d_status d)) ds)"

text \<open>
  A response that is not a success: the request threw or the response is not ok.
\<close>

definition failedResponse :: "'a response \<Rightarrow> bool" where
  "failedResponse r = (case r of Ok v \<Rightarrow> False | _ \<Rightarrow> True)"

text \<open>
  No interval other than \<open>h\<close> polls the batch \<open>b\<close>.
\<close>

definition onlyInterval :: "nat \<Rightarrow> jsstring \<Rightarrow> state \<Rightarrow> bool" where
  "onlyInterval h b s \<longleftrightarrow> list_all (\<lambda>q. snd q \<noteq> b \<or> fst q = h) (intervals s)"

text \<open>
  The two checks of \<open>handleSubmit\<close>: it goes on when there is a document and the final
  prompt is not blank.
\<close>

definition submitProceeds :: "state \<Rightarrow> bool" where
  "submitProceeds s \<longleftrightarrow> documents s \<noteq> [] \<and> truthy (trim (getFinalPrompt s))"

text \<open>
  What a submission that goes on does to each document before the request, and what its
  \<open>catch\<close> does to each document.
\<close>

definition resetDocument :: "DocumentFile \<Rightarrow> DocumentFile" where
  "resetDocument doc = doc\<lparr>status := lit ''analyzing'', progress := 30\<rparr>"

definition failDocument :: "jsstring \<Rightarrow> DocumentFile \<Rightarrow> DocumentFile" where
  "failDocument msg doc = doc\<lparr>status := lit ''failed'', error := Some msg, progress := 100\<rparr>"

text \<open>
  A stage of the workflow has completed when the state of its agent is \<open>completed\<close>.
\<close>

definition agentCompleted :: "monitor \<Rightarrow> jsstring \<Rightarrow> bool" where
  "agentCompleted m agent \<longleftrightarrow> agentStates m agent = Some (lit ''completed'')"

section \<open>Example states\<close>

text \<open>
  A file, a list with one pending document, a response that starts polling, a response
  that is final, and the states after submitting the one document with either response.
\<close>

definition exampleFile :: "nat \<Rightarrow> File" where
  "exampleFile i = \<lparr> name = lit ''contract'' @ showNat i @ lit ''.pdf'', bytes = [] \<rparr>"

definition oneDocument :: state where
  "oneDocument = onDrop 1000 [exampleFile 0] initialState"

definition acceptedBatch :: BatchResult where
  "acceptedBatch = \<lparr> batch_id = Some (lit ''b1''), total_documents = 1, completed = 0,
     failed = 0, analysis_type = lit ''unified'', unified_analysis = None,
     source_documents = None, results = None \<rparr>"

definition unifiedBatch :: BatchResult where
  "unifiedBatch = \<lparr> batch_id = None, total_documents = 1, completed = 1,
     failed = 0, analysis_type = lit ''unified'',
     unified_analysis = Some (lit ''No red flags.''),
     source_documents = None, results = None \<rparr>"

definition polling :: state where
  "polling = snd (handleSubmit (Ok acceptedBatch) oneDocument)"

definition finished :: state where
  "finished = snd (handleSubmit (Ok unifiedBatch) oneDocument)"

text \<open>
  A snapshot entry that reports the example document as completed, with progress zero.
\<close>

definition completedEntry :: StatusDoc where
  "completedEntry = \<lparr> d_filename = name (exampleFile 0), d_status = lit ''completed'',
     d_progress = Some 0 \<rparr>"

text \<open>
  The first poll of the polling example, the world in which it is in flight, and the
  world after these events: the interval fires twice before any response settles, and
  then the first status request is rejected.
\<close>

definition firstPoll :: poll where
  "firstPoll = \<lparr> p_interval = 0, p_batch = lit ''b1'', p_phase = AwaitingStatus \<rparr>"

definition onePollInFlight :: world where
  "onePollInFlight = snd (intervalFires 0 (idle polling))"

definition overlappingPolls :: "event list" where
  "overlappingPolls = [Fire 0, Fire 0, StatusSettled 0 (Rejected None)]"

definition afterFailure :: world where
  "afterFailure = snd (run overlappingPolls (idle polling))"

text \<open>
  Two drops of six files each, both within \<open>maxFiles\<close>.
\<close>

definition sixFiles :: "nat \<Rightarrow> File list" where
  "sixFiles k = map exampleFile [k..<k + 6]"

definition twelveDocuments :: state where
  "twelveDocuments = onDrop 2000 (sixFiles 6) (onDrop 1000 (sixFiles 0) initialState)"

text \<open>
  The clock on two days.
\<close>

definition secondOfNovember :: clock where
  "secondOfNovember = \<lparr> localeDateString = lit ''11/2/2026'',
     isoString = lit ''2026-11-02T09:30:00.000Z'' \<rparr>"

definition thirdOfNovember :: clock where
  "thirdOfNovember = \<lparr> localeDateString = lit ''11/3/2026'',
     isoString = lit ''2026-11-03T09:30:00.000Z'' \<rparr>"

text \<open>
  A monitor in which three chunks of three are done and every agent up to the results
  combination has completed.
\<close>

definition combining :: monitor where
  "combining = \<lparr> agentStates =
       [lit ''Document Parser'' \<mapsto> lit ''completed'',
        lit ''Document Chunking Agent'' \<mapsto> lit ''completed'',
        lit ''Cross-Reference Agent'' \<mapsto> lit ''completed'',
        lit ''Results Combination Agent'' \<mapsto> lit ''completed'',
        lit ''Report Generator'' \<mapsto> lit ''processing''],
     parallelStatus = \<lparr> active = False, total_chunks = 3, completed_chunks = 3,
       completion_percentage = 100 \<rparr> \<rparr>"

text \<open>
  An analysis text of two numbered findings, the minor one first.
\<close>

definition twoFindings :: jsstring where
  "twoFindings = lit ''1. Minor typo in heading'' @ [10] @ lit ''2. Critical liability exposure''"

section \<open>Properties\<close>

subsection \<open>Strings\<close>

lemma lit_eq [simp]: "lit a = lit b \<longleftrightarrow> a = b"
proof -
  have "inj (of_char :: char \<Rightarrow> nat)"
    by (rule inj_on_inverseI [where g = char_of]) simp
  then show ?thesis
    by (simp add: lit_def inj_map_eq_map)
qed

lemma showNat_digit: "n < 10 \<Longrightarrow> showNat n = [48 + n]"
  by (simp add: showNat.simps)

lemma showNat_more: "\<not> n < 10 \<Longrightarrow> showNat n = showNat (n div 10) @ [48 + n mod 10]"
  by (subst showNat.simps) simp

lemma trim_empty: "trim s = [] \<longleftrightarrow> (\<forall>c\<in>set s. isWhiteSpace c)"
proof -
  let ?d = "dropWhile isWhiteSpace s"
  have "trim s = [] \<longleftrightarrow> (\<forall>c\<in>set ?d. isWhiteSpace c)"
    by (simp add: trim_def dropWhile_eq_Nil_conv)
  also have "\<dots> \<longleftrightarrow> ?d = []"
  proof
    assume a: "\<forall>c\<in>set ?d. isWhiteSpace c"
    show "?d = []"
    proof (rule ccontr)
      assume n: "?d \<noteq> []"
      then have "\<not> isWhiteSpace (hd ?d)" by (rule hd_dropWhile)
      moreover have "hd ?d \<in> set ?d" using n by simp
      ultimately show False using a by blast
    qed
  qed (auto dest: set_dropWhileD)
  also have "\<dots> \<longleftrightarrow> (\<forall>c\<in>set s. isWhiteSpace c)"
    by (simp add: dropWhile_eq_Nil_conv)
  finally show ?thesis .
qed

lemma truthy_trim: "truthy (trim s) \<longleftrightarrow> list_ex (\<lambda>c. \<not> isWhiteSpace c) s"
  by (simp add: truthy_def trim_empty list_ex_iff)

subsection \<open>The business context\<close>

lemma applyEdit_userContext_bound:
  "length (userContext s) \<le> 500 \<Longrightarrow> length (userContext (applyEdit e s)) \<le> 500"
  by (cases e)
    (simp_all add: onChangeUserContext_def onChangeCustomPrompt_def onSelectPrompt_def slice0_def)

lemma applyEdits_userContext_bound:
  "length (userContext s) \<le> 500 \<Longrightarrow> length (userContext (applyEdits es s)) \<le> 500"
proof (induction es arbitrary: s)
  case Nil
  then show ?case by simp
next
  case (Cons e es)
  from Cons.prems have "length (userContext (applyEdit e s)) \<le> 500"
    by (rule applyEdit_userContext_bound)
  then show ?case using Cons.IH by simp
qed

text \<open>
  C10. The business context is capped at 500 code units. An edit stores the first 500
  code units of the typed value (it truncates, it does not reject), so after any run of
  edits from the initial state the stored context has length at most 500; and the
  final prompt is the base prompt, followed when the context is not blank by the fixed
  separator of 22 code units and the stored context itself, which is at most 500 code
  units long.
\<close>

theorem userContext_capped:
  "userContext (onChangeUserContext v s) = take 500 v
   \<and> length (userContext (applyEdits es initialState)) \<le> 500
   \<and> (let s' = applyEdits es initialState in
        (getFinalPrompt s' = basePrompt s'
         \<or> getFinalPrompt s' =
             basePrompt s' @ lit [CHR 0x0A, CHR 0x0A] @ lit ''Additional Context: '' @ userContext s')
        \<and> length (getFinalPrompt s') \<le> length (basePrompt s') + 22 + 500)"
proof -
  have a: "userContext (onChangeUserContext v s) = take 500 v"
    by (simp add: onChangeUserContext_def slice0_def)
  have "length (userContext initialState) \<le> 500"
    by (simp add: initialState_def)
  then have b: "length (userContext (applyEdits es initialState)) \<le> 500"
    by (rule applyEdits_userContext_bound)
  have c: "length (lit [CHR 0x0A, CHR 0x0A] @ lit ''Additional Context: '') = 22"
    by (simp add: lit_def)
  show ?thesis
    using a b c by (simp add: getFinalPrompt_def Let_def)
qed

subsection \<open>Submission\<close>

lemma initial_prompt: "truthy (trim (getFinalPrompt (s\<lparr>documents := ds\<rparr>))) = truthy (trim (getFinalPrompt s))"
  by (simp add: getFinalPrompt_def basePrompt_def)

lemma initial_prompt_truthy: "truthy (trim (getFinalPrompt initialState))"
  by (simp add: truthy_trim getFinalPrompt_def basePrompt_def initialState_def predefinedPrompts_def lit_def isWhiteSpace_def trim_def truthy_def)

lemma getFinalPrompt_onDrop [simp]: "getFinalPrompt (onDrop n fs s) = getFinalPrompt s"
  by (simp add: getFinalPrompt_def basePrompt_def onDrop_def)

lemma getFinalPrompt_cong:
  "selectedPromptId s' = selectedPromptId s \<Longrightarrow> customPrompt s' = customPrompt s \<Longrightarrow>
   userContext s' = userContext s \<Longrightarrow> getFinalPrompt s' = getFinalPrompt s"
  by (simp add: getFinalPrompt_def basePrompt_def)

lemma handleSubmit_prompt_inputs:
  "selectedPromptId (snd (handleSubmit r s)) = selectedPromptId s
   \<and> customPrompt (snd (handleSubmit r s)) = customPrompt s
   \<and> userContext (snd (handleSubmit r s)) = userContext s"
  by (simp add: handleSubmit_def Let_def failAll_def startPolling_def fallbackResult_def
      split: response.splits option.splits)

lemma getFinalPrompt_handleSubmit [simp]:
  "getFinalPrompt (snd (handleSubmit r s)) = getFinalPrompt s"
  by (rule getFinalPrompt_cong) (simp_all add: handleSubmit_prompt_inputs)

lemma handleSubmit_early:
  "\<not> submitProceeds s \<Longrightarrow> handleSubmit r s = ([], s)"
  by (auto simp: handleSubmit_def submitProceeds_def Let_def)

lemma handleSubmit_requests:
  "submitProceeds s \<Longrightarrow>
     fst (handleSubmit r s) = [AnalyzeMultiple (map doc_file (documents s)) (getFinalPrompt s)]"
  by (auto simp: handleSubmit_def submitProceeds_def Let_def split: response.splits option.splits)

lemma handleSubmit_polling:
  "submitProceeds s \<Longrightarrow> batch_id result = Some b \<Longrightarrow> truthy b \<Longrightarrow>
     snd (handleSubmit (Ok result) s) =
       startPolling b (isProcessing s)
         (s\<lparr>isProcessing := True, batchResult := None,
            documents := map resetDocument (documents s)\<rparr>)"
  by (simp add: handleSubmit_def submitProceeds_def Let_def resetDocument_def [abs_def] comp_def)

lemma handleSubmit_fallback:
  "submitProceeds s \<Longrightarrow> batch_id result = None \<Longrightarrow>
     snd (handleSubmit (Ok result) s) =
       fallbackResult result
         (s\<lparr>isProcessing := True, batchResult := None,
            documents := map resetDocument (documents s)\<rparr>)"
  by (simp add: handleSubmit_def submitProceeds_def Let_def resetDocument_def [abs_def] comp_def)

lemma handleSubmit_failed:
  "submitProceeds s \<Longrightarrow> failedResponse r \<Longrightarrow>
     documents (snd (handleSubmit r s)) =
       map (\<lambda>doc. doc\<lparr>status := lit ''failed'',
                      error := Some (case r of Rejected m \<Rightarrow> (case m of Some msg \<Rightarrow> msg | None \<Rightarrow> lit ''Unknown error'')
                                     | NotOk e t \<Rightarrow> notOkMessage e t),
                      progress := 100\<rparr>) (documents s)"
  by (cases r) (simp_all add: handleSubmit_def submitProceeds_def Let_def failAll_def failedResponse_def comp_def)

lemma handleSubmit_failed_message:
  "submitProceeds s \<Longrightarrow> failedResponse r \<Longrightarrow>
     \<exists>msg. documents (snd (handleSubmit r s)) = map (failDocument msg) (documents s)"
  using handleSubmit_failed [of s r] by (auto simp: failDocument_def [abs_def])

lemma startPolling_documents [simp]: "documents (startPolling b c s) = documents s"
  by (simp add: startPolling_def)

lemma submitProceeds_initial: "submitProceeds (onDrop n (f # fs) initialState)"
  using initial_prompt_truthy by (simp add: submitProceeds_def) (simp add: onDrop_def)

lemma not_submitProceeds_initial: "\<not> submitProceeds initialState"
  by (simp add: submitProceeds_def initialState_def)

lemma oneDocument_documents:
  "documents oneDocument = [\<lparr> doc_id = lit ''doc_1000_0'', doc_file = exampleFile 0, status = lit ''pending'', analysis = None, error = None, progress = 0 \<rparr>]"
  by (simp add: oneDocument_def onDrop_def initialState_def newDocument_def lit_def
      showNat_digit showNat_more)

lemma polling_documents:
  "documents polling = [\<lparr> doc_id = lit ''doc_1000_0'', doc_file = exampleFile 0, status = lit ''analyzing'', analysis = None, error = None, progress = 30 \<rparr>]"
proof -
  have "submitProceeds oneDocument"
    unfolding oneDocument_def by (rule submitProceeds_initial)
  then have "snd (handleSubmit (Ok acceptedBatch) oneDocument) =
       startPolling (lit ''b1'') (isProcessing oneDocument)
         (oneDocument\<lparr>isProcessing := True, batchResult := None,
            documents := map resetDocument (documents oneDocument)\<rparr>)"
    by (rule handleSubmit_polling) (simp_all add: acceptedBatch_def truthy_def lit_def)
  then show ?thesis
    by (simp add: polling_def oneDocument_documents resetDocument_def)
qed

lemma polling_timers:
  "intervals polling = [(0, lit ''b1'')] \<and> timeouts polling = [(0, False)] \<and> isProcessing polling"
proof -
  have "submitProceeds oneDocument"
    unfolding oneDocument_def by (rule submitProceeds_initial)
  then have "snd (handleSubmit (Ok acceptedBatch) oneDocument) =
       startPolling (lit ''b1'') (isProcessing oneDocument)
         (oneDocument\<lparr>isProcessing := True, batchResult := None,
            documents := map resetDocument (documents oneDocument)\<rparr>)"
    by (rule handleSubmit_polling) (simp_all add: acceptedBatch_def truthy_def lit_def)
  then show ?thesis
    by (simp add: polling_def startPolling_def oneDocument_def onDrop_def initialState_def)
qed

lemma finished_documents:
  "documents finished = [\<lparr> doc_id = lit ''doc_1000_0'', doc_file = exampleFile 0,
     status = lit ''completed'', analysis = Some (lit ''See unified analysis below''),
     error = None, progress = 100 \<rparr>]"
proof -
  have "submitProceeds oneDocument"
    unfolding oneDocument_def by (rule submitProceeds_initial)
  then have "snd (handleSubmit (Ok unifiedBatch) oneDocument) =
       fallbackResult unifiedBatch
         (oneDocument\<lparr>isProcessing := True, batchResult := None,
            documents := map resetDocument (documents oneDocument)\<rparr>)"
    by (rule handleSubmit_fallback) (simp add: unifiedBatch_def)
  then show ?thesis
    by (simp add: finished_def fallbackResult_def Let_def unifiedBatch_def
        oneDocument_documents resetDocument_def)
qed

lemma finished_batchResult: "batchResult finished = Some unifiedBatch"
proof -
  have "submitProceeds oneDocument"
    unfolding oneDocument_def by (rule submitProceeds_initial)
  then have "snd (handleSubmit (Ok unifiedBatch) oneDocument) =
       fallbackResult unifiedBatch
         (oneDocument\<lparr>isProcessing := True, batchResult := None,
            documents := map resetDocument (documents oneDocument)\<rparr>)"
    by (rule handleSubmit_fallback) (simp add: unifiedBatch_def)
  then show ?thesis
    by (simp add: finished_def fallbackResult_def Let_def unifiedBatch_def)
qed

lemma submitProceeds_finished: "submitProceeds finished"
  using initial_prompt_truthy
  by (simp add: submitProceeds_def finished_documents)
    (simp add: finished_def oneDocument_def)

lemma twelveDocuments_length: "length (documents twelveDocuments) = 12"
  by (simp add: twelveDocuments_def onDrop_def sixFiles_def initialState_def)

lemma submitProceeds_twelve: "submitProceeds twelveDocuments"
  using initial_prompt_truthy
  by (simp add: submitProceeds_def twelveDocuments_def)
     (simp add: onDrop_def sixFiles_def upt_conv_Cons)

text \<open>
  C1. The claim is that a submission of more than 10 documents is refused before any
  request is sent. The component bounds only the files of one drop, and \<open>handleSubmit\<close>
  does not look at the number of documents: after two drops of six files each the list
  holds twelve documents, and \<open>handleSubmit\<close>, whatever the server answers, sends one
  analysis request that carries the files of all twelve.
\<close>

theorem handleSubmit_sends_twelve_documents:
  "length (sixFiles 0) \<le> maxFiles \<and> length (sixFiles 6) \<le> maxFiles
   \<and> length (documents twelveDocuments) = 12
   \<and> fst (handleSubmit r twelveDocuments) =
       [AnalyzeMultiple (map doc_file (documents twelveDocuments)) (getFinalPrompt twelveDocuments)]"
  using handleSubmit_requests [OF submitProceeds_twelve, of r] twelveDocuments_length
  by (simp add: sixFiles_def maxFiles_def)

subsection \<open>Status polling\<close>

lemma pollBatchStatus_documents:
  "documents (snd (snd (pollBatchStatus b sr rr s))) =
     (case sr of Ok snap \<Rightarrow> map (applyStatus snap) (documents s) | _ \<Rightarrow> documents s)"
  by (simp add: pollBatchStatus_def Let_def split: response.splits)

lemma applyStatus_reported:
  "applyStatus snap doc =
     (case statusDocOf snap doc of
        None \<Rightarrow> doc
      | Some sd \<Rightarrow>
          doc\<lparr>status := d_status sd,
              progress := (if d_progress sd = None \<or> d_progress sd = Some 0 then progress doc
                           else the (d_progress sd))\<rparr>)"
  by (auto simp: applyStatus_def split: option.splits)

lemma applyStatus_keeps: "analysis (applyStatus snap doc) = analysis doc \<and> error (applyStatus snap doc) = error doc"
  by (simp add: applyStatus_def split: option.splits)

lemma pollBatchStatus_keeps:
  "map analysis (documents (snd (snd (pollBatchStatus b sr rr s)))) = map analysis (documents s)
   \<and> map error (documents (snd (snd (pollBatchStatus b sr rr s)))) = map error (documents s)"
  by (cases sr) (simp_all add: pollBatchStatus_documents applyStatus_keeps comp_def)

lemma isComplete_Some_True:
  "isComplete snap = Some True \<longleftrightarrow> allTerminal (Ok snap)"
  by (cases snap) (simp_all add: isComplete_def allTerminal_def)

lemma not_all_terminal:
  "\<not> list_all (\<lambda>d. terminal (d_status d)) ds \<longleftrightarrow> list_ex (\<lambda>d. \<not> terminal (d_status d)) ds"
  by (simp add: list_all_iff list_ex_iff)

lemma pollBatchStatus_requests:
  "fst (snd (pollBatchStatus b sr rr s)) =
     (if allTerminal sr then [BatchStatusReq b, BatchResultsReq b] else [BatchStatusReq b])"
proof (cases sr)
  case (Ok snap)
  then show ?thesis
    by (simp add: pollBatchStatus_def Let_def isComplete_Some_True split: response.splits)
qed (simp_all add: pollBatchStatus_def allTerminal_def)

lemma pollBatchStatus_continue:
  "fst (pollBatchStatus b sr rr s) \<longleftrightarrow>
     (case sr of Ok snap \<Rightarrow> snap = None \<or> someNonTerminal snap | _ \<Rightarrow> False)"
proof (cases sr)
  case (Ok snap)
  then show ?thesis
    by (cases snap)
      (auto simp: pollBatchStatus_def Let_def isComplete_def someNonTerminal_def
         list_all_iff list_ex_iff split: response.splits)
qed (simp_all add: pollBatchStatus_def)

lemma pollBatchStatus_failed:
  "failedResponse sr \<Longrightarrow> pollBatchStatus b sr rr s = (False, [BatchStatusReq b], s)"
  by (cases sr) (simp_all add: failedResponse_def pollBatchStatus_def)

text \<open>
  C2, as amended. A poll sends the status request and then the results request, the
  latter exactly when the status response is a snapshot with a list of documents that
  are all \<open>completed\<close> or \<open>failed\<close>; so the results are never fetched while a reported
  document is not terminal. The poll returns true exactly when the status request
  succeeded and the snapshot either carries no list of documents or has a document in it
  that is not terminal.
\<close>

theorem results_fetched_only_when_all_terminal:
  "fst (snd (pollBatchStatus b sr rr s)) =
     (if allTerminal sr then [BatchStatusReq b, BatchResultsReq b] else [BatchStatusReq b])
   \<and> (fst (pollBatchStatus b sr rr s) \<longleftrightarrow>
        (case sr of Ok snap \<Rightarrow> snap = None \<or> someNonTerminal snap | _ \<Rightarrow> False))"
  using pollBatchStatus_requests pollBatchStatus_continue by blast

text \<open>
  C2, the claim as stated fails: on a successful status response without a list of
  documents \<open>pollBatchStatus\<close> returns true, although no document is non-terminal.
\<close>

theorem poll_continues_without_documents:
  "fst (pollBatchStatus (lit ''b1'') (Ok None) (Rejected None) initialState)
   \<and> \<not> someNonTerminal None"
  by (simp add: pollBatchStatus_continue someNonTerminal_def)

text \<open>
  C9. The frame of a poll. The list of documents keeps its length, and for each position:
  a document that no entry of the snapshot names (or any document, when the status
  request failed or the snapshot has no list) is left as it was; a document that an
  entry names is the old document with the status of the entry, and with the progress
  of the entry unless that is missing or zero, in which case the progress stays. Its id,
  file, analysis and error are those of the old document.
\<close>

theorem poll_frame:
  "length (documents (snd (snd (pollBatchStatus b sr rr s)))) = length (documents s) \<and>
   (\<forall>i < length (documents s).
      let doc = documents s ! i;
          doc' = documents (snd (snd (pollBatchStatus b sr rr s))) ! i
      in (case reported sr doc of
            None \<Rightarrow> doc' = doc
          | Some sd \<Rightarrow>
              doc' = doc\<lparr>status := d_status sd,
                         progress := (if d_progress sd = None \<or> d_progress sd = Some 0
                                      then progress doc else the (d_progress sd))\<rparr>))"
  by (cases sr)
    (auto simp: pollBatchStatus_documents reported_def applyStatus_reported Let_def
       split: option.splits)

text \<open>
  C9 at the polling example: an entry that reports the document as completed with
  progress zero changes its status alone, and an empty snapshot changes nothing.
\<close>

theorem poll_frame_witness:
  "0 < length (documents polling)
   \<and> documents (snd (snd (pollBatchStatus (lit ''b1'') (Ok (Some [completedEntry])) (Rejected None) polling))) ! 0
       = (documents polling ! 0)\<lparr>status := lit ''completed''\<rparr>
   \<and> documents (snd (snd (pollBatchStatus (lit ''b1'') (Ok (Some [])) (Rejected None) polling))) ! 0
       = documents polling ! 0"
  using poll_frame [of "lit ''b1''" "Ok (Some [completedEntry])" "Rejected None" polling]
    poll_frame [of "lit ''b1''" "Ok (Some [])" "Rejected None" polling]
  by (simp add: polling_documents reported_def statusDocOf_def completedEntry_def Let_def)

subsection \<open>Timers\<close>

lemma map_of_cleared: "map_of (filter (\<lambda>p. fst p \<noteq> h) xs) h = None"
  by (induction xs) auto

lemma clearInterval_inactive: "map_of (intervals (clearInterval h s)) h = None"
  by (simp add: clearInterval_def map_of_cleared)

lemma timeoutFires_pending:
  "map_of (timeouts s) h = Some captured \<Longrightarrow>
     documents (timeoutFires h s) = documents s
     \<and> map_of (intervals (timeoutFires h s)) h = None"
  by (simp add: timeoutFires_def Let_def clearInterval_def map_of_cleared)

lemma clearInterval_subset: "set (intervals (clearInterval h s)) \<subseteq> set (intervals s)"
  by (auto simp: clearInterval_def)

lemma pollReturns_subset: "set (intervals (pollReturns c h s)) \<subseteq> set (intervals s)"
  using clearInterval_subset by (simp add: pollReturns_def)

lemma timeoutFires_subset: "set (intervals (timeoutFires h s)) \<subseteq> set (intervals s)"
  by (auto simp: timeoutFires_def Let_def clearInterval_def split: option.splits)

lemma intervalFires_component: "component (snd (intervalFires h w)) = component w"
  by (simp add: intervalFires_def split: option.splits)

lemma statusSettles_subset:
  "set (intervals (component (snd (statusSettles p r w)))) \<subseteq> set (intervals (component w))"
proof -
  have a: "set (intervals (pollReturns c h (s\<lparr>documents := ds\<rparr>))) \<subseteq> set (intervals s)"
    for c h s ds
    using pollReturns_subset [of c h "s\<lparr>documents := ds\<rparr>"] by simp
  show ?thesis
    by (cases r)
      (auto simp: statusSettles_def endPoll_def Let_def
         dest: subsetD [OF pollReturns_subset] subsetD [OF a]
         split: option.splits)
qed

lemma resultsSettle_subset:
  "set (intervals (component (snd (resultsSettle p r w)))) \<subseteq> set (intervals (component w))"
proof -
  have a: "set (intervals (pollReturns c h
             (s\<lparr>batchResult := x, isProcessing := y, currentBatchId := z\<rparr>))) \<subseteq> set (intervals s)"
    for c h s x y z
    using pollReturns_subset [of c h "s\<lparr>batchResult := x, isProcessing := y, currentBatchId := z\<rparr>"]
    by simp
  show ?thesis
    by (cases r)
      (auto simp: resultsSettle_def endPoll_def
         dest: subsetD [OF pollReturns_subset] subsetD [OF a]
         split: option.splits)
qed

lemma step_intervals_subset:
  "set (intervals (component (snd (eventStep e w)))) \<subseteq> set (intervals (component w))"
proof (cases e)
  case (Fire h)
  then show ?thesis by (simp add: intervalFires_component)
next
  case (StatusSettled p r)
  then show ?thesis using statusSettles_subset by simp
next
  case (ResultsSettled p r)
  then show ?thesis using resultsSettle_subset by simp
next
  case (Timeout h)
  then show ?thesis using timeoutFires_subset by simp
qed

lemma step_status_request:
  assumes "BatchStatusReq b \<in> set (fst (eventStep e w))"
  shows "b \<in> snd ` set (intervals (component w))"
proof (cases e)
  case (Fire h)
  with assms obtain b' where "map_of (intervals (component w)) h = Some b'" "b = b'"
    by (auto simp: intervalFires_def split: option.splits)
  then have "(h, b) \<in> set (intervals (component w))"
    by (auto dest: map_of_SomeD)
  then show ?thesis by force
next
  case (StatusSettled p r)
  with assms show ?thesis
    by (cases r) (auto simp: statusSettles_def Let_def split: option.splits if_splits)
next
  case (ResultsSettled p r)
  with assms show ?thesis
    by (cases r) (auto simp: resultsSettle_def split: option.splits if_splits)
next
  case (Timeout h)
  with assms show ?thesis by simp
qed

lemma run_status_request:
  "BatchStatusReq b \<in> set (fst (run es w)) \<Longrightarrow> b \<in> snd ` set (intervals (component w))"
proof (induction es arbitrary: w)
  case Nil
  then show ?case by simp
next
  case (Cons e es)
  obtain reqs w' where s: "eventStep e w = (reqs, w')" by (cases "eventStep e w")
  obtain reqs' w'' where r: "run es w' = (reqs', w'')" by (cases "run es w'")
  from Cons.prems s r have "BatchStatusReq b \<in> set reqs \<or> BatchStatusReq b \<in> set reqs'"
    by simp
  then show ?case
  proof
    assume "BatchStatusReq b \<in> set reqs"
    then show ?thesis using step_status_request [of b e w] s by simp
  next
    assume "BatchStatusReq b \<in> set reqs'"
    then have "b \<in> snd ` set (intervals (component w'))"
      using Cons.IH [of w'] r by simp
    moreover have "set (intervals (component w')) \<subseteq> set (intervals (component w))"
      using step_intervals_subset [of e w] s by simp
    ultimately show ?thesis by blast
  qed
qed

lemma onlyInterval_cleared:
  "onlyInterval h b s \<Longrightarrow> b \<notin> snd ` set (intervals (clearInterval h s))"
  by (auto simp: onlyInterval_def clearInterval_def list_all_iff)

lemma statusSettles_failed:
  assumes "map_of (inFlight w) p = Some pl" and "p_phase pl = AwaitingStatus"
    and "failedResponse sr"
  shows "statusSettles p sr w =
           ([], endPoll p (w\<lparr>component := clearInterval (p_interval pl) (component w)\<rparr>))"
  using assms by (cases sr) (simp_all add: statusSettles_def pollReturns_def failedResponse_def)

lemma intervalFires_cleared:
  "map_of (intervals (component w)) h = None \<Longrightarrow> intervalFires h w = ([], w)"
  by (simp add: intervalFires_def)

lemma firings_of_cleared_interval:
  "map_of (intervals (component w)) h = None \<Longrightarrow> run (replicate n (Fire h)) w = ([], w)"
  by (induction n) (simp_all add: intervalFires_cleared)

lemma map_of_snoc_fresh: "map_of xs p = None \<Longrightarrow> map_of (xs @ [(p, v)]) p = Some v"
  by (simp add: map_add_def)

lemma map_of_phase_update:
  "map_of xs p = None \<Longrightarrow>
     map_of (map (\<lambda>q. if fst q = p then (p, v') else q) (xs @ [(p, v)])) p = Some v'"
  by (induction xs) auto

text \<open>
  A poll whose responses settle before anything else happens does what
  \<open>pollBatchStatus\<close> does: the same requests, and the state that the callback of the
  interval leaves.
\<close>

lemma serial_poll_agrees:
  assumes "map_of (intervals (component w)) h = Some b"
    and "map_of (inFlight w) (nextPoll w) = None"
  shows "fst (run [Fire h, StatusSettled (nextPoll w) sr, ResultsSettled (nextPoll w) rr] w)
           = fst (snd (pollBatchStatus b sr rr (component w)))
    \<and> component (snd (run [Fire h, StatusSettled (nextPoll w) sr,
                              ResultsSettled (nextPoll w) rr] w))
        = pollReturns (fst (pollBatchStatus b sr rr (component w))) h
            (snd (snd (pollBatchStatus b sr rr (component w))))"
proof (cases sr)
  case (Ok snap)
  show ?thesis
  proof (cases "isComplete snap = Some True")
    case True
    with Ok assms show ?thesis
      by (cases rr)
        (simp_all add: intervalFires_def statusSettles_def resultsSettle_def
           pollBatchStatus_def Let_def endPoll_def map_of_snoc_fresh map_of_phase_update
           pollReturns_def clearInterval_def del: map_of_append map_append)
  next
    case False
    with Ok assms show ?thesis
      by (simp add: intervalFires_def statusSettles_def resultsSettle_def
          pollBatchStatus_def Let_def endPoll_def map_of_snoc_fresh map_of_cleared
          pollReturns_def del: map_of_append map_append filter_append)
  qed
next
  case (Rejected m)
  with assms show ?thesis
    by (simp add: intervalFires_def statusSettles_def resultsSettle_def
        pollBatchStatus_def endPoll_def map_of_snoc_fresh map_of_cleared pollReturns_def
        del: map_of_append map_append filter_append)
next
  case (NotOk e t)
  with assms show ?thesis
    by (simp add: intervalFires_def statusSettles_def resultsSettle_def
        pollBatchStatus_def endPoll_def map_of_snoc_fresh map_of_cleared pollReturns_def
        del: map_of_append map_append filter_append)
qed

lemma onePollInFlight_eq:
  "onePollInFlight = \<lparr> component = polling, inFlight = [(0, firstPoll)], nextPoll = 1 \<rparr>"
  using polling_timers
  by (simp add: onePollInFlight_def intervalFires_def idle_def firstPoll_def)

lemma afterFailure_eq:
  "afterFailure = \<lparr> component = clearInterval 0 polling,
     inFlight = [(1, firstPoll)], nextPoll = 2 \<rparr>"
  using polling_timers
  by (simp add: afterFailure_def overlappingPolls_def intervalFires_def idle_def firstPoll_def
      statusSettles_def pollReturns_def endPoll_def)

text \<open>
  C8, as amended. A failed status request ends the polling. If a poll is waiting for its
  status response and the request throws or is not ok, then \<open>pollBatchStatus\<close> returns
  false, and the settlement sends no request, leaves the documents as they are and clears
  the interval of the poll. If no other interval polls the batch, no status request for
  the batch is sent in any later run of events: nothing is retried.
\<close>

theorem failed_poll_stops_polling:
  assumes "map_of (inFlight w) p = Some pl" and "p_phase pl = AwaitingStatus"
    and "failedResponse sr"
    and "onlyInterval (p_interval pl) (p_batch pl) (component w)"
  shows "fst (pollBatchStatus (p_batch pl) sr rr (component w)) = False
    \<and> fst (statusSettles p sr w) = []
    \<and> documents (component (snd (statusSettles p sr w))) = documents (component w)
    \<and> map_of (intervals (component (snd (statusSettles p sr w)))) (p_interval pl) = None
    \<and> BatchStatusReq (p_batch pl) \<notin> set (fst (run es (snd (statusSettles p sr w))))"
proof -
  let ?w = "endPoll p (w\<lparr>component := clearInterval (p_interval pl) (component w)\<rparr>)"
  have s: "statusSettles p sr w = ([], ?w)"
    using assms(1-3) by (rule statusSettles_failed)
  have c: "component ?w = clearInterval (p_interval pl) (component w)"
    by (simp add: endPoll_def)
  have r: "fst (pollBatchStatus (p_batch pl) sr rr (component w)) = False"
    using assms(3) by (simp add: pollBatchStatus_failed)
  have n: "BatchStatusReq (p_batch pl) \<notin> set (fst (run es ?w))"
  proof
    assume "BatchStatusReq (p_batch pl) \<in> set (fst (run es ?w))"
    then have "p_batch pl \<in> snd ` set (intervals (component ?w))"
      by (rule run_status_request)
    then show False
      using onlyInterval_cleared [OF assms(4)] c by simp
  qed
  show ?thesis
    using s c r n clearInterval_inactive [of "p_interval pl" "component w"]
    by (simp add: clearInterval_def)
qed

text \<open>
  C8, as amended, at the polling example with one poll in flight.
\<close>

theorem failed_poll_stops_polling_witness:
  "map_of (inFlight onePollInFlight) 0 = Some firstPoll
   \<and> p_phase firstPoll = AwaitingStatus
   \<and> failedResponse (Rejected None :: snapshot response)
   \<and> onlyInterval 0 (lit ''b1'') (component onePollInFlight)
   \<and> fst (statusSettles 0 (Rejected None) onePollInFlight) = []
   \<and> BatchStatusReq (lit ''b1'') \<notin> set (fst (run [Fire 0, Timeout 0, Fire 0]
         (snd (statusSettles 0 (Rejected None) onePollInFlight))))"
  using failed_poll_stops_polling [of onePollInFlight 0 firstPoll "Rejected None"
      "Rejected None" "[Fire 0, Timeout 0, Fire 0]"] polling_timers
  by (simp add: onePollInFlight_eq firstPoll_def failedResponse_def onlyInterval_def)

text \<open>
  C8, the claim as stated fails where it has the documents keep the status they had.
  The interval fires twice before a response settles. The first status request is
  rejected, which clears the interval and leaves the document \<open>analyzing\<close>. The second
  response settles after that and reports the document completed: the document becomes
  \<open>completed\<close> and the results are requested, after the failed request.
\<close>

theorem late_poll_changes_documents_after_failure:
  "map_of (intervals (component afterFailure)) 0 = None
   \<and> map status (documents (component afterFailure)) = [lit ''analyzing'']
   \<and> fst (statusSettles 1 (Ok (Some [completedEntry])) afterFailure)
       = [BatchResultsReq (lit ''b1'')]
   \<and> map status (documents (component (snd (statusSettles 1 (Ok (Some [completedEntry]))
         afterFailure)))) = [lit ''completed'']"
  by (simp add: afterFailure_eq clearInterval_inactive statusSettles_def firstPoll_def Let_def
      isComplete_def terminal_def completedEntry_def)
    (simp add: clearInterval_def polling_documents applyStatus_def statusDocOf_def)

text \<open>
  C5, as amended. When the timeout of 300000 ms fires, the interval it belongs to is
  cleared, so that no later firing sends a request, and the documents are left exactly
  as they are: a document that is not terminal keeps its status and gets no error.
\<close>

theorem timeout_only_stops_polling:
  assumes "map_of (timeouts s) h = Some captured"
  shows "documents (timeoutFires h s) = documents s
    \<and> map_of (intervals (timeoutFires h s)) h = None
    \<and> run (replicate n (Fire h)) (w\<lparr>component := timeoutFires h s\<rparr>)
        = ([], w\<lparr>component := timeoutFires h s\<rparr>)"
proof -
  have a: "documents (timeoutFires h s) = documents s
     \<and> map_of (intervals (timeoutFires h s)) h = None"
    using assms by (rule timeoutFires_pending)
  then have "map_of (intervals (component (w\<lparr>component := timeoutFires h s\<rparr>))) h = None"
    by simp
  then have "run (replicate n (Fire h)) (w\<lparr>component := timeoutFires h s\<rparr>)
        = ([], w\<lparr>component := timeoutFires h s\<rparr>)"
    by (rule firings_of_cleared_interval)
  with a show ?thesis by simp
qed

text \<open>
  C5, as amended, at the polling example.
\<close>

theorem timeout_only_stops_polling_witness:
  "map_of (timeouts polling) 0 = Some False
   \<and> documents (timeoutFires 0 polling) = documents polling
   \<and> run [Fire 0, Fire 0] (onePollInFlight\<lparr>component := timeoutFires 0 polling\<rparr>)
       = ([], onePollInFlight\<lparr>component := timeoutFires 0 polling\<rparr>)"
  using timeout_only_stops_polling [of polling 0 False 2 onePollInFlight] polling_timers
  by (simp add: numeral_2_eq_2)

text \<open>
  C5, the claim as stated fails: after the timeout has fired on the polling example, its
  document is still \<open>analyzing\<close> and carries no error, where the claim has it \<open>failed\<close>
  with the reason timeout.
\<close>

theorem timeout_leaves_documents_analyzing:
  "map status (documents (timeoutFires 0 polling)) = [lit ''analyzing'']
   \<and> map error (documents (timeoutFires 0 polling)) = [None]"
  using polling_timers
  by (simp add: timeoutFires_def Let_def clearInterval_def polling_documents)

text \<open>
  The closure of the timeout holds the \<open>isProcessing\<close> of the render that submitted,
  which is false, so its test fails and the \<open>isProcessing\<close> of the state stays true.
\<close>

lemma timeout_reads_captured_isProcessing:
  "map_of (timeouts polling) 0 = Some False \<and> isProcessing (timeoutFires 0 polling)"
  using polling_timers
  by (simp add: timeoutFires_def Let_def clearInterval_def)

subsection \<open>Terminal documents\<close>

text \<open>
  C4, as amended. No operation looks at the status of a document before changing it, so
  a terminal document is changed like any other. A \<open>handleSubmit\<close> that returns early
  changes nothing. One that goes on and gets a batch id leaves every document
  \<open>analyzing\<close> with progress 30; one whose request fails leaves every document \<open>failed\<close>
  with the message of the failure and progress 100. A status poll keeps the analysis and
  the error of every document.
\<close>

theorem operations_ignore_terminal_status:
  "(\<not> submitProceeds s \<longrightarrow> handleSubmit r s = ([], s))
   \<and> (submitProceeds s \<and> batch_id result = Some b \<and> truthy b \<longrightarrow>
        documents (snd (handleSubmit (Ok result) s)) = map resetDocument (documents s))
   \<and> (submitProceeds s \<and> failedResponse r \<longrightarrow>
        (\<exists>msg. documents (snd (handleSubmit r s)) = map (failDocument msg) (documents s)))
   \<and> map analysis (documents (snd (snd (pollBatchStatus b' sr rr s)))) = map analysis (documents s)
   \<and> map error (documents (snd (snd (pollBatchStatus b' sr rr s)))) = map error (documents s)"
  using handleSubmit_early [of s r] handleSubmit_polling [of s result b]
    handleSubmit_failed_message [of s r] pollBatchStatus_keeps [of b' sr rr s]
  by simp

text \<open>
  C4, as amended, at the initial state, which returns early, and at the finished
  example, whose document is terminal.
\<close>

theorem operations_ignore_terminal_status_witness:
  "\<not> submitProceeds initialState
   \<and> handleSubmit (Rejected None) initialState = ([], initialState)
   \<and> submitProceeds finished \<and> batch_id acceptedBatch = Some (lit ''b1'') \<and> truthy (lit ''b1'')
   \<and> failedResponse (Rejected None :: BatchResult response)
   \<and> map (\<lambda>doc. terminal (status doc)) (documents finished) = [True]
   \<and> documents (snd (handleSubmit (Ok acceptedBatch) finished)) = map resetDocument (documents finished)
   \<and> (\<exists>msg. documents (snd (handleSubmit (Rejected None) finished)) = map (failDocument msg) (documents finished))"
  using operations_ignore_terminal_status [of initialState "Rejected None" acceptedBatch "lit ''b1''"]
    operations_ignore_terminal_status [of finished "Rejected None" acceptedBatch "lit ''b1''"]
    not_submitProceeds_initial submitProceeds_finished
  by (simp add: acceptedBatch_def truthy_def failedResponse_def finished_documents terminal_def lit_def)

text \<open>
  C4, the claim as stated fails: the document of the finished example is \<open>completed\<close>,
  and submitting again sets it to \<open>analyzing\<close> with progress 30.
\<close>

theorem resubmit_resets_completed_document:
  "map status (documents finished) = [lit ''completed'']
   \<and> map status (documents (snd (handleSubmit (Ok acceptedBatch) finished))) = [lit ''analyzing'']
   \<and> map progress (documents (snd (handleSubmit (Ok acceptedBatch) finished))) = [30]"
proof -
  have "snd (handleSubmit (Ok acceptedBatch) finished) =
       startPolling (lit ''b1'') (isProcessing finished)
         (finished\<lparr>isProcessing := True, batchResult := None,
            documents := map resetDocument (documents finished)\<rparr>)"
    using submitProceeds_finished
    by (rule handleSubmit_polling) (simp_all add: acceptedBatch_def truthy_def lit_def)
  then show ?thesis
    by (simp add: finished_documents resetDocument_def)
qed

subsection \<open>The downloaded report\<close>

lemma reportContent_date:
  "reportContent d1 br = reportContent d2 br \<longleftrightarrow> d1 = d2"
  by (simp add: reportContent_def)

text \<open>
  C7, as amended. The text of the report is a function of the batch result and of the
  locale date string of the moment of the download: for one batch result, two reports
  are identical exactly when their date strings are. \<open>downloadBatchReport\<close> produces that
  text when there is a batch result, and nothing otherwise.
\<close>

theorem report_identical_iff_same_date:
  "(reportContent d1 br = reportContent d2 br \<longleftrightarrow> d1 = d2)
   \<and> (batchResult s = Some br \<longrightarrow>
        map_option content (downloadBatchReport now s) = Some (reportContent (localeDateString now) br))
   \<and> (batchResult s = None \<longrightarrow> downloadBatchReport now s = None)"
  by (simp add: reportContent_date downloadBatchReport_def)

text \<open>
  C7, as amended, at the finished example and at the initial state.
\<close>

theorem report_identical_iff_same_date_witness:
  "batchResult finished = Some unifiedBatch
   \<and> map_option content (downloadBatchReport secondOfNovember finished)
       = Some (reportContent (lit ''11/2/2026'') unifiedBatch)
   \<and> batchResult initialState = None
   \<and> downloadBatchReport secondOfNovember initialState = None"
  using report_identical_iff_same_date [of _ unifiedBatch _ finished secondOfNovember]
    report_identical_iff_same_date [of _ unifiedBatch _ initialState secondOfNovember]
    finished_batchResult
  by (simp add: initialState_def secondOfNovember_def)

text \<open>
  C7, the claim as stated fails: the same state gives two different report texts on two
  different days.
\<close>

theorem report_differs_between_days:
  "map_option content (downloadBatchReport secondOfNovember finished)
     \<noteq> map_option content (downloadBatchReport thirdOfNovember finished)"
  by (simp add: downloadBatchReport_def finished_batchResult reportContent_date
      secondOfNovember_def thirdOfNovember_def lit_def)

subsection \<open>The agent monitor\<close>

text \<open>
  C3. The cross-reference step shows progress only when all chunks are done and there is
  at least one chunk; the results combination shows progress only when the
  cross-reference agent has completed, and the report generation only when the results
  combination agent has completed. In each case the step shows progress exactly then.
\<close>

theorem later_steps_wait_for_predecessor:
  "(getStepProgress m (lit ''cross_ref'') \<noteq> 0 \<longrightarrow>
      completed_chunks (parallelStatus m) \<ge> total_chunks (parallelStatus m)
      \<and> total_chunks (parallelStatus m) > 0)
   \<and> (getStepProgress m (lit ''combination'') \<noteq> 0 \<longrightarrow>
        agentCompleted m (lit ''Cross-Reference Agent''))
   \<and> (getStepProgress m (lit ''report'') \<noteq> 0 \<longrightarrow>
        agentCompleted m (lit ''Results Combination Agent''))
   \<and> (parallelComplete m \<longrightarrow> getStepProgress m (lit ''cross_ref'') \<noteq> 0)
   \<and> (agentCompleted m (lit ''Cross-Reference Agent'') \<longrightarrow>
        getStepProgress m (lit ''combination'') \<noteq> 0)
   \<and> (agentCompleted m (lit ''Results Combination Agent'') \<longrightarrow>
        getStepProgress m (lit ''report'') \<noteq> 0)"
  by (simp add: getStepProgress_def Let_def parallelComplete_def agentCompleted_def)

text \<open>
  C3 at the combining example, where each of the three steps shows progress.
\<close>

theorem later_steps_wait_for_predecessor_witness:
  "getStepProgress combining (lit ''cross_ref'') = 100
   \<and> getStepProgress combining (lit ''combination'') = 100
   \<and> getStepProgress combining (lit ''report'') = 50
   \<and> total_chunks (parallelStatus combining) \<le> completed_chunks (parallelStatus combining)
   \<and> 0 < total_chunks (parallelStatus combining)
   \<and> agentCompleted combining (lit ''Cross-Reference Agent'')
   \<and> agentCompleted combining (lit ''Results Combination Agent'')"
  using later_steps_wait_for_predecessor [of combining]
  by (simp add: getStepProgress_def Let_def parallelComplete_def combining_def)

subsection \<open>The issues list\<close>

lemma splitLines_covers:
  "c \<in> set s \<Longrightarrow> c \<noteq> 10 \<Longrightarrow> \<exists>l\<in>set (splitLines s). c \<in> set l"
proof (induction s)
  case Nil
  then show ?case by simp
next
  case (Cons d r)
  show ?case
  proof (cases "c \<in> set r")
    case True
    with Cons obtain l where l: "l \<in> set (splitLines r)" "c \<in> set l" by blast
    then show ?thesis
      by (cases "splitLines r") (auto split: list.splits)
  next
    case False
    with Cons.prems have "d = c" by simp
    with Cons.prems show ?thesis
      by (cases "splitLines r") auto
  qed
qed

lemma nonblank_has_line:
  assumes "truthy (trim sec)"
  shows "filter truthy (map trim (splitLines sec)) \<noteq> []"
proof -
  from assms obtain c where c: "c \<in> set sec" "\<not> isWhiteSpace c"
    by (auto simp: truthy_def trim_empty)
  then have "c \<noteq> 10" by (auto simp: isWhiteSpace_def)
  with c obtain l where l: "l \<in> set (splitLines sec)" "c \<in> set l"
    using splitLines_covers by blast
  with c have "truthy (trim l)" by (auto simp: truthy_def trim_empty)
  with l have "trim l \<in> set (filter truthy (map trim (splitLines sec)))" by simp
  then show ?thesis by (metis empty_iff empty_set)
qed

lemma issueOf_nonblank:
  assumes "truthy (trim sec)"
  shows "\<exists>i. issueOf k sec = Some i \<and> issue_severity i = getSeverity sec
           \<and> issue_id i = lit ''issue-'' @ showNat k"
proof -
  obtain firstLine others where "filter truthy (map trim (splitLines sec)) = firstLine # others"
    using nonblank_has_line [OF assms] by (cases "filter truthy (map trim (splitLines sec))") auto
  then show ?thesis
    by (simp add: issueOf_def Let_def)
qed

lemma map_filter_all_Some:
  "\<forall>x\<in>set xs. f x = Some (g x) \<Longrightarrow> List.map_filter f xs = map g xs"
  by (induction xs) (simp_all add: map_filter_simps)

lemma sectionsOf_nonblank: "sec \<in> set (sectionsOf t) \<Longrightarrow> truthy (trim sec)"
  by (simp add: sectionsOf_def)

lemma sectionsOf_empty: "sectionsOf [] = []"
  by (simp add: sectionsOf_def trim_def truthy_def)

lemma parseIssues_as_map:
  "parseIssuesFromAnalysis t =
     map (\<lambda>p. the (issueOf (fst p) (snd p))) (enumerate 0 (sectionsOf t))"
proof (cases "t = []")
  case True
  then show ?thesis by (simp add: parseIssuesFromAnalysis_def sectionsOf_empty)
next
  case False
  have "\<forall>p\<in>set (enumerate 0 (sectionsOf t)).
          issueOf (fst p) (snd p) = Some (the (issueOf (fst p) (snd p)))"
  proof
    fix p assume "p \<in> set (enumerate 0 (sectionsOf t))"
    then have "snd p \<in> set (sectionsOf t)"
      by (metis in_set_zipE enumerate_eq_zip prod.collapse)
    then have "truthy (trim (snd p))" by (rule sectionsOf_nonblank)
    then show "issueOf (fst p) (snd p) = Some (the (issueOf (fst p) (snd p)))"
      using issueOf_nonblank [of "snd p" "fst p"] by auto
  qed
  then show ?thesis
    using False by (simp add: parseIssuesFromAnalysis_def map_filter_all_Some)
qed

lemma issue_of_section:
  assumes "p \<in> set (enumerate 0 (sectionsOf t))"
  shows "issue_severity (the (issueOf (fst p) (snd p))) = getSeverity (snd p)
         \<and> issue_id (the (issueOf (fst p) (snd p))) = lit ''issue-'' @ showNat (fst p)"
proof -
  from assms have "snd p \<in> set (sectionsOf t)"
    by (metis in_set_zipE enumerate_eq_zip prod.collapse)
  then have "truthy (trim (snd p))" by (rule sectionsOf_nonblank)
  then show ?thesis
    using issueOf_nonblank [of "snd p" "fst p"] by auto
qed

lemma map_snd_of_enumerate: "map (\<lambda>p. f (snd p)) (enumerate n xs) = map f xs"
  by (induction xs arbitrary: n) simp_all

lemma map_fst_of_enumerate:
  "map (\<lambda>p. f (fst p)) (enumerate n xs) = map f [n..<n + length xs]"
proof -
  have a: "map f (map fst (enumerate n xs)) = map f [n..<n + length xs]"
    by simp
  have b: "map f (map fst (enumerate n xs)) = map (\<lambda>p. f (fst p)) (enumerate n xs)"
    by (simp only: map_map comp_def)
  from b [symmetric] a show ?thesis by (rule trans)
qed

lemma parseIssues_severities:
  "map issue_severity (parseIssuesFromAnalysis t) = map getSeverity (sectionsOf t)"
proof -
  have "map issue_severity (parseIssuesFromAnalysis t)
          = map (\<lambda>p. getSeverity (snd p)) (enumerate 0 (sectionsOf t))"
    by (simp add: parseIssues_as_map issue_of_section)
  then show ?thesis by (simp only: map_snd_of_enumerate)
qed

lemma parseIssues_ids:
  "map issue_id (parseIssuesFromAnalysis t)
     = map (\<lambda>k. lit ''issue-'' @ showNat k) [0..<length (sectionsOf t)]"
proof -
  have "map issue_id (parseIssuesFromAnalysis t)
          = map (\<lambda>p. lit ''issue-'' @ showNat (fst p)) (enumerate 0 (sectionsOf t))"
    by (simp add: parseIssues_as_map issue_of_section)
  also have "\<dots> = map (\<lambda>k. lit ''issue-'' @ showNat k) [0..<0 + length (sectionsOf t)]"
    by (rule map_fst_of_enumerate)
  finally show ?thesis by simp
qed

lemma twoFindings_split:
  "splitSections [] twoFindings = [lit ''1. Minor typo in heading'', lit ''2. Critical liability exposure'']"
  by (simp add: twoFindings_def lit_def sectionAhead_def afterNumber_def isDigit_def
      startsWith_def bullet_def isWhiteSpace_def)

lemma twoFindings_sections:
  "sectionsOf twoFindings = [lit ''1. Minor typo in heading'', lit ''2. Critical liability exposure'']"
  by (simp add: sectionsOf_def twoFindings_split truthy_trim) (simp add: lit_def isWhiteSpace_def)

lemma severity_minor: "getSeverity (lit ''1. Minor typo in heading'') = Low"
  by (simp add: getSeverity_def Let_def toLowerCase_def lowerUnit_def highKeywords_def mediumKeywords_def lit_def startsWith_def)

lemma severity_critical: "getSeverity (lit ''2. Critical liability exposure'') = High"
  by (simp add: getSeverity_def Let_def toLowerCase_def lowerUnit_def highKeywords_def mediumKeywords_def lit_def startsWith_def)

text \<open>
  C6, as amended. The issues are listed in the order of the sections of the analysis
  text, not by severity: the issue at position \<open>k\<close> has the id \<open>issue-k\<close> and the
  severity that the keywords give to the section at position \<open>k\<close>.
\<close>

theorem issues_follow_text_order:
  "map issue_severity (parseIssuesFromAnalysis t) = map getSeverity (sectionsOf t)
   \<and> map issue_id (parseIssuesFromAnalysis t)
       = map (\<lambda>k. lit ''issue-'' @ showNat k) [0..<length (sectionsOf t)]"
  using parseIssues_severities parseIssues_ids by simp

text \<open>
  C6, the claim as stated fails: of two findings, the first minor and the second
  critical, the issue of low severity is listed before the issue of high severity.
\<close>

theorem low_issue_listed_before_high:
  "map issue_severity (parseIssuesFromAnalysis twoFindings) = [Low, High]"
  by (simp add: parseIssues_severities twoFindings_sections severity_minor severity_critical)

end
